theory Spec2Isabelle
  imports Complex_Main "HOL-Library.Char_ord" "HOL-Library.List_Lexorder" "HOL-Library.Sublist"
begin

section \<open>The tables of \<open>dashboard.py\<close>\<close>

text \<open>
  The dashboard works on pandas data frames. A data frame is modelled as the list of its
  rows, in row order, and a row as a record of the columns the functions read. A cell
  that is missing in the CSV (pandas' NaN, or NaT in a date column) is \<open>None\<close>.

  A timestamp is the number of nanoseconds since the epoch, as in \<open>datetime64[ns]\<close>;
  a calendar day is the number of whole days since the epoch. Payment values and
  coordinates are \<open>float64\<close> in pandas; they are modelled as exact reals, so the
  rounding of floating-point addition is not part of the model.
\<close>

datatype py_error = ValueError

record order_row =
  order_id :: "string option"
  customer_id :: "string option"
  product_id :: "string option"
  product_category_name_english :: "string option"
  order_approved_at :: "int option"
  payment_value :: "real option"
  review_score :: "int option"
  customer_state :: "string option"
  customer_zip_code_prefix :: "int option"

record geolocation_row =
  geolocation_zip_code_prefix :: "int option"
  geolocation_lat :: "real option"
  geolocation_lng :: "real option"

subsection \<open>\<open>load_geolocation\<close>\<close>

text \<open>
  \<^verbatim>\<open>df.drop_duplicates(subset=['geolocation_zip_code_prefix'], inplace=True)\<close>
  with the default \<open>keep='first'\<close>: the frame is scanned in row order with the set of
  keys met so far, and a row whose key was met before is dropped. Two missing keys
  count as equal. The first argument of \<open>drop_duplicates\<close> is the list of keys met.
\<close>

fun drop_duplicates :: "'k list \<Rightarrow> ('r \<Rightarrow> 'k) \<Rightarrow> 'r list \<Rightarrow> 'r list" where
  "drop_duplicates seen col [] = []"
| "drop_duplicates seen col (r # df) =
     (if col r \<in> set seen then drop_duplicates seen col df
      else r # drop_duplicates (col r # seen) col df)"

definition load_geolocation :: "geolocation_row list \<Rightarrow> geolocation_row list" where
  "load_geolocation csv = drop_duplicates [] geolocation_zip_code_prefix csv"

subsection \<open>\<open>merge_customer_geolocation\<close>\<close>

text \<open>
  \<^verbatim>\<open>customers_df.merge(geolocation_df, how='left', left_on='customer_zip_code_prefix',
                     right_on='geolocation_zip_code_prefix')\<close>
  A row of the joined frame has the columns of the right frame and, in \<open>customer_cols\<close>,
  those of the left frame. The left join goes through the left frame in row order; a
  left row is paired with every right row of equal key, in the right frame's order, and
  a left row that no right row matches is kept once, with the right frame's columns
  missing. pandas matches a missing key with a missing key, as \<open>=\<close> on \<open>option\<close> does.
\<close>

record customer_geo_row = geolocation_row +
  customer_cols :: order_row

definition matched_row :: "order_row \<Rightarrow> geolocation_row \<Rightarrow> customer_geo_row" where
  "matched_row c g =
     \<lparr>geolocation_zip_code_prefix = geolocation_zip_code_prefix g,
      geolocation_lat = geolocation_lat g, geolocation_lng = geolocation_lng g,
      customer_cols = c\<rparr>"

definition unmatched_row :: "order_row \<Rightarrow> customer_geo_row" where
  "unmatched_row c =
     \<lparr>geolocation_zip_code_prefix = None, geolocation_lat = None, geolocation_lng = None,
      customer_cols = c\<rparr>"

definition merge_left_row :: "geolocation_row list \<Rightarrow> order_row \<Rightarrow> customer_geo_row list" where
  "merge_left_row geolocation_df c =
     (case filter (\<lambda>g. geolocation_zip_code_prefix g = customer_zip_code_prefix c) geolocation_df of
        [] \<Rightarrow> [unmatched_row c]
      | g # gs \<Rightarrow> map (matched_row c) (g # gs))"

definition merge_customer_geolocation ::
  "order_row list \<Rightarrow> geolocation_row list \<Rightarrow> customer_geo_row list" where
  "merge_customer_geolocation customers_df geolocation_df =
     concat (map (merge_left_row geolocation_df) customers_df)"

subsection \<open>The geometry column and \<open>customers_gdf\<close>\<close>

text \<open>
  \<^verbatim>\<open>customers_df['geometry'] = customers_df.apply(lambda x:
      Point(x['geolocation_lng'], x['geolocation_lat'])
      if pd.notnull(x['geolocation_lng']) else None, axis=1)
  customers_gdf = gpd.GeoDataFrame(customers_df.dropna(subset=['geometry']), ...)\<close>
  A point holds the two floats it was built from; a missing cell reaches \<open>Point\<close> as the
  float NaN, which is \<open>None\<close> here.
\<close>

datatype point = Point "real option" "real option"

record gdf_row = customer_geo_row +
  geometry :: "point option"

definition with_geometry :: "customer_geo_row \<Rightarrow> gdf_row" where
  "with_geometry x =
     \<lparr>geolocation_zip_code_prefix = geolocation_zip_code_prefix x,
      geolocation_lat = geolocation_lat x, geolocation_lng = geolocation_lng x,
      customer_cols = customer_cols x,
      geometry = (if geolocation_lng x \<noteq> None
                  then Some (Point (geolocation_lng x) (geolocation_lat x)) else None)\<rparr>"

definition customers_gdf :: "customer_geo_row list \<Rightarrow> gdf_row list" where
  "customers_gdf customers_df = filter (\<lambda>x. geometry x \<noteq> None) (map with_geometry customers_df)"

subsection \<open>The date filter\<close>

text \<open>
  The sidebar returns two dates. \<open>str(date)\<close> is \<open>YYYY-MM-DD\<close>, and pandas compares a
  datetime column with such a string by parsing it to the timestamp of that day at
  00:00:00. A comparison with a missing timestamp is false.
  \<^verbatim>\<open>filtered_df = all_df[(all_df["order_approved_at"] >= str(date_range[0])) &
                        (all_df["order_approved_at"] <= str(date_range[1]))]\<close>
\<close>

definition ns_per_day :: int where
  "ns_per_day = 86400000000000"

definition day_of :: "int \<Rightarrow> int" where
  "day_of t = t div ns_per_day"

definition timestamp_of_date :: "int \<Rightarrow> int" where
  "timestamp_of_date d = d * ns_per_day"

definition in_date_range :: "int \<times> int \<Rightarrow> order_row \<Rightarrow> bool" where
  "in_date_range date_range r =
     (case order_approved_at r of
        None \<Rightarrow> False
      | Some t \<Rightarrow> timestamp_of_date (fst date_range) \<le> t \<and> t \<le> timestamp_of_date (snd date_range))"

definition filtered_df :: "order_row list \<Rightarrow> int \<times> int \<Rightarrow> order_row list" where
  "filtered_df all_df date_range = filter (in_date_range date_range) all_df"

subsection \<open>Column reductions\<close>

text \<open>
  \<open>nunique\<close> counts the distinct values of a column, \<open>count\<close> its cells, \<open>sum\<close> adds
  them; all three skip missing cells, and the sum of no cells is 0.
\<close>

definition nunique :: "('r \<Rightarrow> 'v option) \<Rightarrow> 'r list \<Rightarrow> nat" where
  "nunique col df = length (remdups (List.map_filter col df))"

definition count_col :: "('r \<Rightarrow> 'v option) \<Rightarrow> 'r list \<Rightarrow> nat" where
  "count_col col df = length (List.map_filter col df)"

definition sum_col :: "('r \<Rightarrow> real option) \<Rightarrow> 'r list \<Rightarrow> real" where
  "sum_col col df = sum_list (List.map_filter col df)"

text \<open>
  \<open>sort_values(by=..., ascending=False)\<close> returns the rows in descending order of the
  key. The sort is numpy's quicksort, which does not fix the order of rows with equal
  keys, and that order differs between builds of the library. The argument \<open>ties\<close>
  stands for that choice: from the key column and the position of a row in the frame it
  gives a rank, and rows of equal key come out by descending rank (rows of equal key and
  equal rank in the reverse of their order in the frame). Whatever \<open>ties\<close> is, the
  result has the rows of the frame, in descending key order. The functions that sort
  take \<open>ties\<close> as their first argument.
\<close>

definition sort_values_desc :: "(nat list \<Rightarrow> nat \<Rightarrow> nat) \<Rightarrow> ('r \<Rightarrow> nat) \<Rightarrow> 'r list \<Rightarrow> 'r list" where
  "sort_values_desc ties col df =
     map fst (rev (sort_key (\<lambda>xi. col (fst xi))
       (sort_key (\<lambda>xi. ties (map col df) (snd xi)) (zip df [0..<length df]))))"

subsection \<open>Resampling to calendar days\<close>

text \<open>
  \<open>df.resample('D', on='order_approved_at')\<close> cuts the time axis into one bucket per
  calendar day, from the day of the earliest approval timestamp of the frame to the day
  of the latest, both included; the bucket of a day is labelled with that day at
  00:00:00. An empty frame has no buckets. A row without an approval timestamp is in no
  bucket.
\<close>

definition approval_day :: "order_row \<Rightarrow> int option" where
  "approval_day r = map_option day_of (order_approved_at r)"

definition resample_days :: "order_row list \<Rightarrow> int list" where
  "resample_days df =
     (case List.map_filter approval_day df of
        [] \<Rightarrow> []
      | d # ds \<Rightarrow> [fold min ds d .. fold max ds d])"

definition on_day :: "int \<Rightarrow> order_row list \<Rightarrow> order_row list" where
  "on_day d df = filter (\<lambda>r. approval_day r = Some d) df"

subsection \<open>The six aggregations\<close>

record daily_orders_row =
  do_order_approved_at :: int
  total_orders :: nat
  total_revenue :: real

definition prepare_daily_orders :: "order_row list \<Rightarrow> daily_orders_row list" where
  "prepare_daily_orders df =
     map (\<lambda>d. \<lparr>do_order_approved_at = timestamp_of_date d,
               total_orders = nunique order_id (on_day d df),
               total_revenue = sum_col payment_value (on_day d df)\<rparr>)
         (resample_days df)"

record spending_row =
  sp_order_approved_at :: int
  daily_spending :: real

definition compute_total_spending :: "order_row list \<Rightarrow> spending_row list" where
  "compute_total_spending df =
     map (\<lambda>d. \<lparr>sp_order_approved_at = timestamp_of_date d,
               daily_spending = sum_col payment_value (on_day d df)\<rparr>)
         (resample_days df)"

text \<open>
  \<open>df.groupby(key)\<close> has one group per distinct key present, in ascending key order;
  rows with a missing key are in no group.
\<close>

definition group_keys :: "('r \<Rightarrow> 'k::linorder option) \<Rightarrow> 'r list \<Rightarrow> 'k list" where
  "group_keys key df = sort (remdups (List.map_filter key df))"

definition group_rows :: "('r \<Rightarrow> 'k option) \<Rightarrow> 'k \<Rightarrow> 'r list \<Rightarrow> 'r list" where
  "group_rows key k df = filter (\<lambda>r. key r = Some k) df"

record product_row =
  pr_product_category_name_english :: string
  total_sold :: nat

definition aggregate_products ::
  "(nat list \<Rightarrow> nat \<Rightarrow> nat) \<Rightarrow> order_row list \<Rightarrow> product_row list" where
  "aggregate_products ties df =
     sort_values_desc ties total_sold
       (map (\<lambda>k. \<lparr>pr_product_category_name_english = k,
                  total_sold = count_col product_id (group_rows product_category_name_english k df)\<rparr>)
            (group_keys product_category_name_english df))"

record state_row =
  st_customer_state :: string
  num_customers :: nat

definition customer_distribution_by_state ::
  "(nat list \<Rightarrow> nat \<Rightarrow> nat) \<Rightarrow> order_row list \<Rightarrow> state_row list" where
  "customer_distribution_by_state ties df =
     sort_values_desc ties num_customers
       (map (\<lambda>k. \<lparr>st_customer_state = k,
                  num_customers = nunique customer_id (group_rows customer_state k df)\<rparr>)
            (group_keys customer_state df))"

text \<open>
  \<open>value_counts()\<close> lists each distinct value present with the number of its rows, the
  values in the order of their first row, and then sorts by count, largest first.
  \<open>idxmax()\<close> returns the label of the first entry whose count is the largest, and raises
  \<open>ValueError\<close> on a series with no entries.
\<close>

definition value_counts ::
  "(nat list \<Rightarrow> nat \<Rightarrow> nat) \<Rightarrow> ('r \<Rightarrow> 'v option) \<Rightarrow> 'r list \<Rightarrow> ('v \<times> nat) list" where
  "value_counts ties col df =
     (let vals = List.map_filter col df
      in sort_values_desc ties snd
           (map (\<lambda>v. (v, count_list vals v)) (drop_duplicates [] (\<lambda>v. v) vals)))"

fun idxmax :: "('v \<times> nat) list \<Rightarrow> py_error + 'v" where
  "idxmax [] = Inl ValueError"
| "idxmax (e # s) = Inr (fst (fold (\<lambda>x best. if snd best < snd x then x else best) s e))"

definition analyze_review_scores ::
  "(nat list \<Rightarrow> nat \<Rightarrow> nat) \<Rightarrow> order_row list \<Rightarrow> py_error + ((int \<times> nat) list \<times> int)" where
  "analyze_review_scores ties df =
     (let score_counts = sort_values_desc ties snd (value_counts ties review_score df)
      in case idxmax score_counts of
           Inl e \<Rightarrow> Inl e
         | Inr mode \<Rightarrow> Inr (score_counts, mode))"

record order_items_row =
  oi_product_category_name_english :: string
  products :: nat

definition analyze_top_low_products :: "order_row list \<Rightarrow> order_items_row list" where
  "analyze_top_low_products df =
     map (\<lambda>k. \<lparr>oi_product_category_name_english = k,
               products = count_col order_id (group_rows product_category_name_english k df)\<rparr>)
         (group_keys product_category_name_english df)"

subsection \<open>One run of the script\<close>

text \<open>
  Lines 94 to 102: the six aggregates are computed from \<open>filtered_df\<close>, in this order;
  an exception in one of them ends the run.
\<close>

record aggregates =
  daily_orders :: "daily_orders_row list"
  daily_spending_df :: "spending_row list"
  product_sales :: "product_row list"
  customer_states :: "state_row list"
  review_stats :: "(int \<times> nat) list"
  top_review :: int
  sum_order_items_df :: "order_items_row list"

definition run_aggregations ::
  "(nat list \<Rightarrow> nat \<Rightarrow> nat) \<Rightarrow> order_row list \<Rightarrow> int \<times> int \<Rightarrow> py_error + aggregates" where
  "run_aggregations ties all_df date_range =
     (let f = filtered_df all_df date_range
      in case analyze_review_scores ties f of
           Inl e \<Rightarrow> Inl e
         | Inr (stats, mode) \<Rightarrow>
             Inr \<lparr>daily_orders = prepare_daily_orders f,
                  daily_spending_df = compute_total_spending f,
                  product_sales = aggregate_products ties f,
                  customer_states = customer_distribution_by_state ties f,
                  review_stats = stats, top_review = mode,
                  sum_order_items_df = analyze_top_low_products f\<rparr>)"

subsection \<open>Sample rows\<close>

text \<open>Rows for the concrete tables on which the theorems below are evaluated.\<close>

definition sample_order :: "string \<Rightarrow> int \<Rightarrow> real \<Rightarrow> int \<Rightarrow> int \<Rightarrow> order_row" where
  "sample_order oid approved pay score zp =
     \<lparr>order_id = Some oid, customer_id = Some ''c1'', product_id = Some ''p1'',
      product_category_name_english = Some ''toys'', order_approved_at = Some approved,
      payment_value = Some pay, review_score = Some score, customer_state = Some ''SP'',
      customer_zip_code_prefix = Some zp\<rparr>"

definition sample_geolocation :: "int \<Rightarrow> real option \<Rightarrow> real option \<Rightarrow> geolocation_row" where
  "sample_geolocation zp lat lng =
     \<lparr>geolocation_zip_code_prefix = Some zp, geolocation_lat = lat, geolocation_lng = lng\<rparr>"


text \<open>
  A tie order for the concrete tables: every row has rank 0, so rows of equal key come
  out in the reverse of their order in the frame.
\<close>

definition sample_ties :: "nat list \<Rightarrow> nat \<Rightarrow> nat" where
  "sample_ties keys i = 0"


section \<open>Deduplication of the geolocation table\<close>

lemma filter_drop_duplicates:
  "filter (\<lambda>r. col r = k) (drop_duplicates seen col df) =
     (if k \<in> set seen then []
      else case find (\<lambda>r. col r = k) df of None \<Rightarrow> [] | Some r \<Rightarrow> [r])"
proof (induction df arbitrary: seen)
  case Nil
  show ?case by simp
next
  case (Cons r df)
  show ?case
  proof (cases "col r \<in> set seen")
    case True
    then show ?thesis using Cons.IH [of seen] by auto
  next
    case False
    then show ?thesis using Cons.IH [of "col r # seen"] by auto
  qed
qed

lemma drop_duplicates_fresh:
  "r \<in> set (drop_duplicates seen col df) \<Longrightarrow> col r \<notin> set seen"
proof (induction df arbitrary: seen)
  case Nil
  then show ?case by simp
next
  case (Cons a df)
  show ?case
  proof (cases "col a \<in> set seen")
    case True
    then show ?thesis using Cons.prems Cons.IH [of seen] by simp
  next
    case False
    then show ?thesis using Cons.prems Cons.IH [of "col a # seen"] by auto
  qed
qed

lemma drop_duplicates_distinct:
  "distinct (map col (drop_duplicates seen col df))"
  by (induction df arbitrary: seen) (auto dest: drop_duplicates_fresh)

lemma drop_duplicates_id:
  "distinct (map col df) \<Longrightarrow> set (map col df) \<inter> set seen = {} \<Longrightarrow>
   drop_duplicates seen col df = df"
  by (induction df arbitrary: seen) auto

lemma drop_duplicates_subseq: "subseq (drop_duplicates seen col df) df"
  by (induction df arbitrary: seen) auto

text \<open>
  C7. After \<open>load_geolocation\<close>, the rows bearing a zip-code prefix \<open>p\<close> are exactly
  one row, the first row of the input table that bears \<open>p\<close> (and none when no row of
  the input bears \<open>p\<close>); the rows kept stay in the order of the table. So each prefix
  of the table maps to one coordinate pair, the one of its first occurrence.
\<close>

theorem load_geolocation_keeps_first:
  "filter (\<lambda>g. geolocation_zip_code_prefix g = p) (load_geolocation csv) =
     (case find (\<lambda>g. geolocation_zip_code_prefix g = p) csv of
        None \<Rightarrow> [] | Some g \<Rightarrow> [g])
   \<and> subseq (load_geolocation csv) csv
   \<and> distinct (map geolocation_zip_code_prefix (load_geolocation csv))"
  unfolding load_geolocation_def
  by (simp add: filter_drop_duplicates drop_duplicates_subseq drop_duplicates_distinct)

text \<open>
  C8. Deduplicating twice gives the same table as deduplicating once.
\<close>

theorem load_geolocation_idempotent:
  "load_geolocation (load_geolocation csv) = load_geolocation csv"
  unfolding load_geolocation_def
  by (rule drop_duplicates_id) (simp_all add: drop_duplicates_distinct)

section \<open>The customer-geolocation join\<close>

lemma customer_cols_rows [simp]:
  "customer_cols (matched_row c g) = c" "customer_cols (unmatched_row c) = c"
  by (simp_all add: matched_row_def unmatched_row_def)

lemma merge_left_row_cols:
  "\<exists>n. map customer_cols (merge_left_row geolocation_df c) = c # replicate n c"
proof (cases "filter (\<lambda>g. geolocation_zip_code_prefix g = customer_zip_code_prefix c) geolocation_df")
  case Nil
  then show ?thesis by (simp add: merge_left_row_def)
next
  case (Cons g gs)
  have "map customer_cols (map (matched_row c) gs) = replicate (length gs) c"
    by (induction gs) simp_all
  with Cons show ?thesis by (simp add: merge_left_row_def)
qed

lemma merge_subseq:
  "subseq customers_df (map customer_cols (merge_customer_geolocation customers_df geolocation_df))"
proof (induction customers_df)
  case Nil
  show ?case by (simp add: merge_customer_geolocation_def)
next
  case (Cons c cs)
  obtain n where n: "map customer_cols (merge_left_row geolocation_df c) = c # replicate n c"
    using merge_left_row_cols [of geolocation_df c] by (elim exE)
  have "subseq cs (replicate n c @ map customer_cols (merge_customer_geolocation cs geolocation_df))"
    using Cons.IH by (simp add: subseq_drop_many)
  then show ?case using n by (simp add: merge_customer_geolocation_def)
qed

lemma merge_left_row_unmatched:
  assumes "\<forall>g\<in>set geolocation_df. geolocation_zip_code_prefix g \<noteq> customer_zip_code_prefix c"
  shows "merge_left_row geolocation_df c = [unmatched_row c]"
proof -
  have "filter (\<lambda>g. geolocation_zip_code_prefix g = customer_zip_code_prefix c) geolocation_df = []"
    using assms by (simp add: filter_empty_conv)
  then show ?thesis by (simp add: merge_left_row_def)
qed

lemma merge_left_row_set:
  "j \<in> set (merge_left_row geolocation_df c) \<Longrightarrow> customer_cols j = c"
  by (auto simp: merge_left_row_def split: list.splits)

lemma merge_rows:
  "j \<in> set (merge_customer_geolocation customers_df geolocation_df) \<longleftrightarrow>
   (\<exists>c\<in>set customers_df. j \<in> set (merge_left_row geolocation_df c))"
  by (auto simp: merge_customer_geolocation_def)

text \<open>
  C4. The left join keeps every row of the customers table: the customers table is a
  subsequence of the left-hand columns of the joined table (no row dropped, order kept),
  and the joined table has no left-hand row that is not in the customers table. A
  customer row whose zip prefix no geolocation row bears appears in the joined table,
  and every joined row made from it has its coordinates and its geolocation prefix
  missing. The join is a total function: it raises on no pair of tables.
\<close>

theorem merge_customer_geolocation_keeps_rows:
  "subseq customers_df (map customer_cols (merge_customer_geolocation customers_df geolocation_df))
   \<and> (\<forall>j\<in>set (merge_customer_geolocation customers_df geolocation_df).
         customer_cols j \<in> set customers_df)
   \<and> (\<forall>c\<in>set customers_df.
         (\<forall>g\<in>set geolocation_df. geolocation_zip_code_prefix g \<noteq> customer_zip_code_prefix c) \<longrightarrow>
         unmatched_row c \<in> set (merge_customer_geolocation customers_df geolocation_df)
         \<and> (\<forall>j\<in>set (merge_customer_geolocation customers_df geolocation_df).
               customer_cols j = c \<longrightarrow>
               geolocation_lat j = None \<and> geolocation_lng j = None
               \<and> geolocation_zip_code_prefix j = None))"
proof (intro conjI ballI impI)
  show "subseq customers_df (map customer_cols (merge_customer_geolocation customers_df geolocation_df))"
    by (rule merge_subseq)
next
  fix j assume "j \<in> set (merge_customer_geolocation customers_df geolocation_df)"
  then show "customer_cols j \<in> set customers_df"
    by (auto simp: merge_rows dest: merge_left_row_set)
next
  fix c assume c: "c \<in> set customers_df"
    and un: "\<forall>g\<in>set geolocation_df. geolocation_zip_code_prefix g \<noteq> customer_zip_code_prefix c"
  have row: "merge_left_row geolocation_df c = [unmatched_row c]"
    using un by (rule merge_left_row_unmatched)
  show "unmatched_row c \<in> set (merge_customer_geolocation customers_df geolocation_df)"
    unfolding merge_rows using c row by (intro bexI [of _ c]) simp_all
  fix j assume j: "j \<in> set (merge_customer_geolocation customers_df geolocation_df)"
    and jc: "customer_cols j = c"
  from j obtain c' where "c' \<in> set customers_df" and j': "j \<in> set (merge_left_row geolocation_df c')"
    by (auto simp: merge_rows)
  then have "c' = c" using jc merge_left_row_set by blast
  with j' row have "j = unmatched_row c" by simp
  then show "geolocation_lat j = None" "geolocation_lng j = None" "geolocation_zip_code_prefix j = None"
    by (simp_all add: unmatched_row_def)
qed

theorem merge_customer_geolocation_keeps_rows_witness:
  "sample_order ''o2'' 0 10 5 7 \<in> set [sample_order ''o1'' 0 10 5 1, sample_order ''o2'' 0 10 5 7]
   \<and> geolocation_zip_code_prefix (sample_geolocation 1 (Some 2) (Some 3)) \<noteq>
       customer_zip_code_prefix (sample_order ''o2'' 0 10 5 7)
   \<and> subseq [sample_order ''o1'' 0 10 5 1, sample_order ''o2'' 0 10 5 7]
        (map customer_cols (merge_customer_geolocation
           [sample_order ''o1'' 0 10 5 1, sample_order ''o2'' 0 10 5 7]
           [sample_geolocation 1 (Some 2) (Some 3)]))
   \<and> unmatched_row (sample_order ''o2'' 0 10 5 7) \<in>
        set (merge_customer_geolocation
           [sample_order ''o1'' 0 10 5 1, sample_order ''o2'' 0 10 5 7]
           [sample_geolocation 1 (Some 2) (Some 3)])"
  using merge_customer_geolocation_keeps_rows
    [of "[sample_order ''o1'' 0 10 5 1, sample_order ''o2'' 0 10 5 7]"
        "[sample_geolocation 1 (Some 2) (Some 3)]"]
  by (simp add: sample_order_def sample_geolocation_def)

section \<open>The geometry column\<close>

text \<open>
  The rows of \<open>customers_gdf\<close> are the rows of the joined table whose longitude is
  present, each with the point built from its longitude and its latitude. The latitude
  is not tested.
\<close>

lemma customers_gdf_rows:
  "customers_gdf customers_df =
     map with_geometry (filter (\<lambda>x. geolocation_lng x \<noteq> None) customers_df)"
  unfolding customers_gdf_def
  by (induction customers_df) (simp_all add: with_geometry_def)

text \<open>
  C6. A joined row with longitude 3 and a missing latitude is not dropped: it is in
  \<open>customers_gdf\<close>, with a point whose second coordinate is missing.
\<close>

theorem customers_gdf_keeps_missing_latitude:
  "customers_gdf [matched_row (sample_order ''o1'' 0 10 5 1) (sample_geolocation 1 None (Some 3))] =
     [\<lparr>geolocation_zip_code_prefix = Some 1, geolocation_lat = None, geolocation_lng = Some 3,
       customer_cols = sample_order ''o1'' 0 10 5 1,
       geometry = Some (Point (Some 3) None)\<rparr>]"
  by (simp add: customers_gdf_def with_geometry_def matched_row_def sample_geolocation_def)

section \<open>The date filter\<close>

text \<open>
  The filtered table holds the rows whose approval timestamp lies between 00:00:00 of the
  first date and 00:00:00 of the last date, both included; the aggregates of a run are
  those of the filtered table.
\<close>

lemma filtered_df_rows:
  "filtered_df all_df (first_date, last_date) =
     filter (\<lambda>r. \<exists>t. order_approved_at r = Some t
                 \<and> first_date * ns_per_day \<le> t \<and> t \<le> last_date * ns_per_day) all_df"
  unfolding filtered_df_def
  by (rule filter_cong) (auto simp: in_date_range_def timestamp_of_date_def split: option.splits)

lemma run_aggregations_of_filtered:
  assumes "run_aggregations ties all_df date_range = Inr a"
  shows "daily_orders a = prepare_daily_orders (filtered_df all_df date_range)"
    and "daily_spending_df a = compute_total_spending (filtered_df all_df date_range)"
    and "product_sales a = aggregate_products ties (filtered_df all_df date_range)"
    and "customer_states a = customer_distribution_by_state ties (filtered_df all_df date_range)"
    and "analyze_review_scores ties (filtered_df all_df date_range) = Inr (review_stats a, top_review a)"
    and "sum_order_items_df a = analyze_top_low_products (filtered_df all_df date_range)"
  using assms
  by (auto simp: run_aggregations_def Let_def split: sum.splits prod.splits)

text \<open>
  C3. With both dates of the range set to day 5, an order approved on day 5 at 10:00 is
  not in the filtered table: the end of the range is day 5 at 00:00:00.
\<close>

theorem filtered_df_drops_end_day:
  "approval_day (sample_order ''o1'' (5 * ns_per_day + 36000000000000) 10 5 1) = Some 5
   \<and> filtered_df [sample_order ''o1'' (5 * ns_per_day + 36000000000000) 10 5 1] (5, 5) = []"
  by (simp add: approval_day_def day_of_def ns_per_day_def filtered_df_def in_date_range_def
      timestamp_of_date_def sample_order_def)

lemma filtered_df_reversed_range:
  "snd date_range < fst date_range \<Longrightarrow> filtered_df all_df date_range = []"
  by (auto simp: filtered_df_def in_date_range_def timestamp_of_date_def ns_per_day_def
      filter_empty_conv split: option.splits)

section \<open>The aggregations of an empty table\<close>

lemma sort_values_desc_Nil [simp]: "sort_values_desc ties col [] = []"
  by (simp add: sort_values_desc_def)

lemma aggregations_Nil:
  "prepare_daily_orders [] = []" "compute_total_spending [] = []"
  "aggregate_products ties [] = []" "customer_distribution_by_state ties [] = []"
  "analyze_top_low_products [] = []" "analyze_review_scores ties [] = Inl ValueError"
  by (simp_all add: prepare_daily_orders_def compute_total_spending_def resample_days_def
      aggregate_products_def customer_distribution_by_state_def analyze_top_low_products_def
      analyze_review_scores_def value_counts_def group_keys_def)

text \<open>
  C2, as stated, fails: with the start date (day 2) after the end date (day 1) the
  filtered table is empty and \<open>analyze_review_scores\<close> raises \<open>ValueError\<close>.
\<close>

theorem empty_range_review_scores_error:
  "analyze_review_scores sample_ties (filtered_df [sample_order ''o1'' 0 10 5 1] (2, 1)) = Inl ValueError"
  by (simp add: filtered_df_def in_date_range_def timestamp_of_date_def ns_per_day_def
      sample_order_def aggregations_Nil)

text \<open>
  C2, amended. When the start date is after the end date, or no row of the table lies
  in the range, the filtered table is empty; then \<open>prepare_daily_orders\<close>,
  \<open>compute_total_spending\<close>, \<open>aggregate_products\<close>, \<open>customer_distribution_by_state\<close> and
  \<open>analyze_top_low_products\<close> return the empty table, \<open>analyze_review_scores\<close> raises
  \<open>ValueError\<close>, and so does the run.
\<close>

theorem empty_range_aggregates:
  assumes "snd date_range < fst date_range \<or> (\<forall>r\<in>set all_df. \<not> in_date_range date_range r)"
  shows "filtered_df all_df date_range = []
    \<and> prepare_daily_orders (filtered_df all_df date_range) = []
    \<and> compute_total_spending (filtered_df all_df date_range) = []
    \<and> aggregate_products ties (filtered_df all_df date_range) = []
    \<and> customer_distribution_by_state ties (filtered_df all_df date_range) = []
    \<and> analyze_top_low_products (filtered_df all_df date_range) = []
    \<and> analyze_review_scores ties (filtered_df all_df date_range) = Inl ValueError
    \<and> run_aggregations ties all_df date_range = Inl ValueError"
proof -
  have "filtered_df all_df date_range = []"
    using assms filtered_df_reversed_range [of date_range all_df]
    by (auto simp: filtered_df_def filter_empty_conv)
  then show ?thesis
    by (simp add: aggregations_Nil run_aggregations_def)
qed

theorem empty_range_aggregates_witness:
  "(snd (2::int, 1::int) < fst (2::int, 1::int) \<or>
      (\<forall>r\<in>set [sample_order ''o1'' 0 10 5 1]. \<not> in_date_range (2, 1) r))
   \<and> prepare_daily_orders (filtered_df [sample_order ''o1'' 0 10 5 1] (2, 1)) = []
   \<and> run_aggregations sample_ties [sample_order ''o1'' 0 10 5 1] (2, 1) = Inl ValueError"
proof -
  have h: "snd (2::int, 1::int) < fst (2::int, 1::int) \<or>
      (\<forall>r\<in>set [sample_order ''o1'' 0 10 5 1]. \<not> in_date_range (2, 1) r)"
    by simp
  show ?thesis using h empty_range_aggregates [OF h, of sample_ties] by blast
qed

section \<open>The daily aggregations\<close>

lemma set_map_filter:
  "set (List.map_filter f xs) = {y. \<exists>x\<in>set xs. f x = Some y}"
  by (induction xs) (auto split: option.splits)

lemma fold_min_Min: "fold min ds d = Min (set (d # ds))"
  by (simp only: Min.set_eq_fold)

lemma fold_max_Max: "fold max ds d = Max (set (d # ds))"
  by (simp only: Max.set_eq_fold)

lemma resample_days_eq:
  "resample_days df =
     (if List.map_filter approval_day df = [] then []
      else [Min (set (List.map_filter approval_day df)) .. Max (set (List.map_filter approval_day df))])"
  by (cases "List.map_filter approval_day df")
     (simp_all add: resample_days_def fold_min_Min fold_max_Max)

lemma approval_day_in_days:
  "approval_day r = Some d \<Longrightarrow> r \<in> set df \<Longrightarrow> d \<in> set (List.map_filter approval_day df)"
  by (force simp: set_map_filter)

lemma resample_days_covers:
  assumes "r \<in> set df" "approval_day r = Some d"
  shows "d \<in> set (resample_days df)"
proof -
  let ?days = "List.map_filter approval_day df"
  have d: "d \<in> set ?days" using assms by (simp add: approval_day_in_days)
  then have ne: "?days \<noteq> []" by auto
  have "Min (set ?days) \<le> d" "d \<le> Max (set ?days)" using d by simp_all
  then show ?thesis using ne by (simp add: resample_days_eq)
qed

lemma distinct_resample_days: "distinct (resample_days df)"
  by (simp add: resample_days_eq)






lemma filtered_df_approved:
  "r \<in> set (filtered_df all_df date_range) \<Longrightarrow> \<exists>d. approval_day r = Some d"
  by (auto simp: filtered_df_def in_date_range_def approval_day_def split: option.splits)

lemma sum_col_Nil [simp]: "sum_col col [] = 0"
  by (simp add: sum_col_def)

lemma nunique_Nil [simp]: "nunique col [] = 0"
  by (simp add: nunique_def)

text \<open>
  C10. For a non-empty filtered table, the day labels of \<open>prepare_daily_orders\<close> and of
  \<open>compute_total_spending\<close> are the calendar days from the earliest to the latest
  approval day of the table, each once and in order; a day of that span on which no row
  was approved has the row with 0 distinct orders and revenue 0, and the row with
  spending 0.
\<close>

theorem daily_rows_cover_span:
  assumes "df = filtered_df all_df date_range" and "df \<noteq> []"
  shows "List.map_filter approval_day df \<noteq> []
    \<and> map do_order_approved_at (prepare_daily_orders df) =
        map timestamp_of_date
          [Min (set (List.map_filter approval_day df)) .. Max (set (List.map_filter approval_day df))]
    \<and> map sp_order_approved_at (compute_total_spending df) =
        map timestamp_of_date
          [Min (set (List.map_filter approval_day df)) .. Max (set (List.map_filter approval_day df))]
    \<and> (\<forall>d\<in>{Min (set (List.map_filter approval_day df)) .. Max (set (List.map_filter approval_day df))}.
          on_day d df = [] \<longrightarrow>
          \<lparr>do_order_approved_at = timestamp_of_date d, total_orders = 0, total_revenue = 0\<rparr>
            \<in> set (prepare_daily_orders df)
          \<and> \<lparr>sp_order_approved_at = timestamp_of_date d, daily_spending = 0\<rparr>
            \<in> set (compute_total_spending df))"
proof -
  let ?days = "List.map_filter approval_day df"
  obtain r where r: "r \<in> set df" using assms(2) by (cases df) auto
  then obtain d where "approval_day r = Some d"
    using assms(1) filtered_df_approved by blast
  with r have ne: "?days \<noteq> []" using approval_day_in_days by fastforce
  then have days: "resample_days df = [Min (set ?days) .. Max (set ?days)]"
    by (simp add: resample_days_eq)
  have a: "map do_order_approved_at (prepare_daily_orders df) =
      map timestamp_of_date [Min (set ?days) .. Max (set ?days)]"
    by (simp add: prepare_daily_orders_def days comp_def)
  have b: "map sp_order_approved_at (compute_total_spending df) =
      map timestamp_of_date [Min (set ?days) .. Max (set ?days)]"
    by (simp add: compute_total_spending_def days comp_def)
  have c: "\<lparr>do_order_approved_at = timestamp_of_date d, total_orders = 0, total_revenue = 0\<rparr>
            \<in> set (prepare_daily_orders df)
          \<and> \<lparr>sp_order_approved_at = timestamp_of_date d, daily_spending = 0\<rparr>
            \<in> set (compute_total_spending df)"
    if "d \<in> {Min (set ?days) .. Max (set ?days)}" and "on_day d df = []" for d
  proof -
    have "d \<in> set (resample_days df)" using that(1) days by simp
    then show ?thesis
      unfolding prepare_daily_orders_def compute_total_spending_def set_map
      by (intro conjI image_eqI [of _ _ d]) (simp_all add: that(2))
  qed
  show ?thesis using ne a b c by blast
qed

theorem daily_rows_cover_span_witness:
  "filtered_df [sample_order ''o1'' 1 10 5 1, sample_order ''o2'' (2 * ns_per_day + 5) 20 4 1] (0, 3) \<noteq> []
   \<and> map do_order_approved_at (prepare_daily_orders
        (filtered_df [sample_order ''o1'' 1 10 5 1, sample_order ''o2'' (2 * ns_per_day + 5) 20 4 1] (0, 3)))
       = [0, ns_per_day, 2 * ns_per_day]
   \<and> \<lparr>do_order_approved_at = timestamp_of_date 1, total_orders = 0, total_revenue = 0\<rparr>
        \<in> set (prepare_daily_orders
        (filtered_df [sample_order ''o1'' 1 10 5 1, sample_order ''o2'' (2 * ns_per_day + 5) 20 4 1] (0, 3)))
   \<and> \<lparr>sp_order_approved_at = timestamp_of_date 1, daily_spending = 0\<rparr>
        \<in> set (compute_total_spending
        (filtered_df [sample_order ''o1'' 1 10 5 1, sample_order ''o2'' (2 * ns_per_day + 5) 20 4 1] (0, 3)))"
proof -
  let ?all = "[sample_order ''o1'' 1 10 5 1, sample_order ''o2'' (2 * ns_per_day + 5) 20 4 1]"
  have f: "filtered_df ?all (0, 3) = ?all"
    by (simp add: filtered_df_def in_date_range_def timestamp_of_date_def ns_per_day_def
        sample_order_def)
  have ne: "filtered_df ?all (0, 3) \<noteq> []"
    by (simp add: f)
  have days: "List.map_filter approval_day ?all = [0, 2]"
    by (simp add: approval_day_def day_of_def ns_per_day_def sample_order_def)
  have span: "[0 .. 2::int] = [0, 1, 2]"
    by (simp add: upto.simps)
  have empty: "on_day 1 ?all = []"
    by (simp add: on_day_def approval_day_def day_of_def ns_per_day_def sample_order_def)
  note t = daily_rows_cover_span [OF refl ne, unfolded f days]
  have mm: "Min (set [0, 2::int]) = 0" "Max (set [0, 2::int]) = 2"
    by simp_all
  have labels: "map do_order_approved_at (prepare_daily_orders ?all) = [0, ns_per_day, 2 * ns_per_day]"
    using t by (simp add: mm span timestamp_of_date_def)
  have "(1::int) \<in> {Min (set [0, 2::int]) .. Max (set [0, 2::int])}"
    by (simp add: mm)
  with t empty have zero:
    "\<lparr>do_order_approved_at = timestamp_of_date 1, total_orders = 0, total_revenue = 0\<rparr>
       \<in> set (prepare_daily_orders ?all)
     \<and> \<lparr>sp_order_approved_at = timestamp_of_date 1, daily_spending = 0\<rparr>
       \<in> set (compute_total_spending ?all)"
    by blast
  show ?thesis
    unfolding f using labels zero by simp
qed

lemma sum_list_nunique_days:
  "sum_list (map total_orders (prepare_daily_orders df)) =
     (\<Sum>d\<in>set (resample_days df). card (set (List.map_filter order_id (on_day d df))))"
proof -
  have "sum_list (map total_orders (prepare_daily_orders df)) =
        sum_list (map (\<lambda>d. card (set (List.map_filter order_id (on_day d df)))) (resample_days df))"
    by (simp add: prepare_daily_orders_def comp_def nunique_def length_remdups_card_conv)
  also have "\<dots> = (\<Sum>d\<in>set (resample_days df). card (set (List.map_filter order_id (on_day d df))))"
    by (rule sum_list_distinct_conv_sum_set) (rule distinct_resample_days)
  finally show ?thesis .
qed

text \<open>
  C1, as stated, fails: two rows of one order approved on two different days give the
  daily counts 1 and 1, which sum to 2, while the table has 1 distinct order id.
\<close>

theorem daily_orders_total_counterexample:
  "[sample_order ''o1'' 0 10 5 1, sample_order ''o1'' ns_per_day 20 5 1] \<noteq> []
   \<and> sum_list (map total_orders (prepare_daily_orders
        [sample_order ''o1'' 0 10 5 1, sample_order ''o1'' ns_per_day 20 5 1])) = 2
   \<and> nunique order_id [sample_order ''o1'' 0 10 5 1, sample_order ''o1'' ns_per_day 20 5 1] = 1"
  by (simp add: prepare_daily_orders_def resample_days_def sample_order_def approval_day_def
      day_of_def ns_per_day_def on_day_def nunique_def timestamp_of_date_def upto.simps)

text \<open>
  C1, amended. When every row has an approval timestamp and the rows that share an order
  id are approved on the same calendar day, the daily distinct-order counts of
  \<open>prepare_daily_orders\<close> sum to the number of distinct order ids of the table.
\<close>

theorem daily_orders_total:
  assumes approved: "\<forall>r\<in>set df. order_approved_at r \<noteq> None"
    and one_day: "\<forall>r\<in>set df. \<forall>r'\<in>set df. order_id r = order_id r' \<longrightarrow> approval_day r = approval_day r'"
  shows "sum_list (map total_orders (prepare_daily_orders df)) = nunique order_id df"
proof -
  let ?S = "\<lambda>d. set (List.map_filter order_id (on_day d df))"
  let ?I = "set (resample_days df)"
  have disj: "\<forall>d\<in>?I. \<forall>d'\<in>?I. d \<noteq> d' \<longrightarrow> ?S d \<inter> ?S d' = {}"
  proof (intro ballI impI)
    fix d d' :: int
    assume "d \<in> ?I" "d' \<in> ?I" "d \<noteq> d'"
    show "?S d \<inter> ?S d' = {}"
    proof (rule ccontr)
      assume "?S d \<inter> ?S d' \<noteq> {}"
      then obtain x where "x \<in> ?S d" "x \<in> ?S d'" by blast
      then obtain r r' where "r \<in> set df" "approval_day r = Some d" "order_id r = Some x"
        "r' \<in> set df" "approval_day r' = Some d'" "order_id r' = Some x"
        by (auto simp: set_map_filter on_day_def)
      then show False using one_day \<open>d \<noteq> d'\<close> by fastforce
    qed
  qed
  have union: "(\<Union>d\<in>?I. ?S d) = set (List.map_filter order_id df)"
  proof (intro equalityI subsetI)
    fix x assume "x \<in> (\<Union>d\<in>?I. ?S d)"
    then show "x \<in> set (List.map_filter order_id df)"
      by (auto simp: set_map_filter on_day_def)
  next
    fix x assume "x \<in> set (List.map_filter order_id df)"
    then obtain r where r: "r \<in> set df" "order_id r = Some x"
      by (auto simp: set_map_filter)
    then obtain d where d: "approval_day r = Some d"
      using approved by (auto simp: approval_day_def)
    then have "d \<in> ?I" using r(1) by (rule resample_days_covers [rotated])
    moreover have "x \<in> ?S d" using r d by (auto simp: set_map_filter on_day_def)
    ultimately show "x \<in> (\<Union>d\<in>?I. ?S d)" by blast
  qed
  have "sum_list (map total_orders (prepare_daily_orders df)) = (\<Sum>d\<in>?I. card (?S d))"
    by (rule sum_list_nunique_days)
  also have "\<dots> = card (\<Union>d\<in>?I. ?S d)"
    using disj by (subst card_UN_disjoint) simp_all
  also have "\<dots> = nunique order_id df"
    by (simp add: union nunique_def length_remdups_card_conv)
  finally show ?thesis .
qed

theorem daily_orders_total_witness:
  "list_all (\<lambda>r. order_approved_at r \<noteq> None)
     [sample_order ''o1'' 1 10 5 1, sample_order ''o1'' 2 5 5 1, sample_order ''o2'' (ns_per_day + 5) 20 4 1]
   \<and> sum_list (map total_orders (prepare_daily_orders
       [sample_order ''o1'' 1 10 5 1, sample_order ''o1'' 2 5 5 1, sample_order ''o2'' (ns_per_day + 5) 20 4 1]))
     = 2
   \<and> nunique order_id
       [sample_order ''o1'' 1 10 5 1, sample_order ''o1'' 2 5 5 1, sample_order ''o2'' (ns_per_day + 5) 20 4 1]
     = 2"
proof -
  let ?df = "[sample_order ''o1'' 1 10 5 1, sample_order ''o1'' 2 5 5 1,
              sample_order ''o2'' (ns_per_day + 5) 20 4 1]"
  have a: "\<forall>r\<in>set ?df. order_approved_at r \<noteq> None"
    by (simp add: sample_order_def)
  have b: "\<forall>r\<in>set ?df. \<forall>r'\<in>set ?df. order_id r = order_id r' \<longrightarrow> approval_day r = approval_day r'"
    by (simp add: sample_order_def approval_day_def day_of_def ns_per_day_def)
  have n: "nunique order_id ?df = 2"
    by (simp add: nunique_def sample_order_def)
  show ?thesis
    using a n daily_orders_total [OF a b] by (simp add: sample_order_def)
qed

section \<open>The review-score histogram and its mode\<close>





















end
